theory Spec2Isabelle
  imports
    Complex_Main
    "HOL-Library.Word"
    "HOL-Library.Char_ord"
    "HOL-Library.List_Lexorder"
    "HOL-Library.Sublist"
begin

section \<open>JSON values as Python sees them\<close>

text \<open>
  \<^verbatim>\<open>request.get_json()\<close> hands the handlers a Python value built from the JSON body:
  \<^verbatim>\<open>None\<close> for \<^verbatim>\<open>null\<close>, a \<^verbatim>\<open>bool\<close>, an unbounded \<^verbatim>\<open>int\<close>, a \<^verbatim>\<open>float\<close>
  (an IEEE 754 double, kept here as its 64-bit pattern so that \<^verbatim>\<open>-0.0\<close>, infinities and
  NaN are values too), a \<^verbatim>\<open>str\<close>, a \<^verbatim>\<open>list\<close> or a \<^verbatim>\<open>dict\<close> (in insertion order).
  \<open>JNull\<close> is Python's \<^verbatim>\<open>None\<close>: the module starts with \<^verbatim>\<open>CONTEXTO_ATUAL = None\<close>.
\<close>

datatype json =
    JNull
  | JBool bool
  | JInt int
  | JFloat "64 word"
  | JStr string
  | JArr "json list"
  | JObj "(string \<times> json) list"

text \<open>
  Python truth value testing, as used by \<^verbatim>\<open>if not data\<close>: \<^verbatim>\<open>None\<close>, \<^verbatim>\<open>False\<close>,
  a zero number (\<^verbatim>\<open>0\<close>, \<^verbatim>\<open>0.0\<close>, \<^verbatim>\<open>-0.0\<close>: every bit but the sign clear) and an
  empty string, list or dict are false; everything else is true.
\<close>

fun truthy :: "json \<Rightarrow> bool" where
  "truthy JNull = False"
| "truthy (JBool b) = b"
| "truthy (JInt i) = (i \<noteq> 0)"
| "truthy (JFloat w) = (take_bit 63 w \<noteq> 0)"
| "truthy (JStr s) = (s \<noteq> [])"
| "truthy (JArr xs) = (xs \<noteq> [])"
| "truthy (JObj kvs) = (kvs \<noteq> [])"

section \<open>HTTP outcomes\<close>

text \<open>
  The error statuses of the routes: the 400 and 404 that the handlers return, and the 500
  that Flask answers when a handler raises an exception it does not catch.
\<close>

datatype http_error = BadRequest | NotFound | InternalServerError

section \<open>The context mailbox\<close>

text \<open>
  The success bodies of the two context routes: \<^verbatim>\<open>{'sucesso': True, 'mensagem': ...}\<close>
  and \<^verbatim>\<open>{'sucesso': True, 'dados': ctx}\<close>.
\<close>

datatype contexto_resposta = ContextoSalvo | Dados json

text \<open>
  The global \<^verbatim>\<open>CONTEXTO_ATUAL\<close> is passed in and returned: each handler maps the slot to
  its response and the slot afterwards. \<open>data\<close> is what \<^verbatim>\<open>request.get_json()\<close> returned.
\<close>

definition enviar_contexto :: "json \<Rightarrow> json \<Rightarrow> (http_error + contexto_resposta) \<times> json" where
  "enviar_contexto CONTEXTO_ATUAL data =
     (if \<not> truthy data then (Inl BadRequest, CONTEXTO_ATUAL)
      else (Inr ContextoSalvo, data))"

definition pegar_contexto :: "json \<Rightarrow> (http_error + contexto_resposta) \<times> json" where
  "pegar_contexto CONTEXTO_ATUAL =
     (if CONTEXTO_ATUAL = JNull then (Inl NotFound, CONTEXTO_ATUAL)
      else (Inr (Dados CONTEXTO_ATUAL), JNull))"

text \<open>A client request to the mailbox, and the slot after a sequence of them.\<close>

datatype pedido = Enviar json | Pegar

fun passo :: "json \<Rightarrow> pedido \<Rightarrow> json" where
  "passo s (Enviar d) = snd (enviar_contexto s d)"
| "passo s Pegar = snd (pegar_contexto s)"

definition executar :: "pedido list \<Rightarrow> json" where
  "executar ps = foldl passo JNull ps"

section \<open>The recipe catalog\<close>

text \<open>
  \<^verbatim>\<open>RECEITAS\<close> is the list of recipe dictionaries read once from the dataset. A recipe is
  modelled with the fields the code reads: the keys it indexes (\<^verbatim>\<open>receita['IdReceita']\<close>,
  \<^verbatim>\<open>receita['NomeReceita']\<close>) are always there, the keys it reads through
  \<^verbatim>\<open>receita.get(key, default)\<close> are optional (\<open>None\<close>: the key is absent). A JSON
  number is an \<^verbatim>\<open>int\<close> or a finite \<^verbatim>\<open>float\<close>; Python compares the two by their exact
  value, which is a rational. A \<^verbatim>\<open>str\<close> is kept as its sequence of characters (bytes of
  its UTF-8 form: equality, substring and lexicographic order agree with those on code
  points).
\<close>

record ingrediente =
  NomeIngrediente :: string
  Quantidade :: rat

record macronutriente =
  Tipo :: string
  Valor :: rat

record receita =
  IdReceita :: int
  NomeReceita :: string
  Tag :: "string option"
  CaloriasTotais :: "rat option"
  Ingredientes :: "ingrediente list option"
  Macronutrientes :: "macronutriente list option"
  Restricoes :: "string list option"

text \<open>\<^verbatim>\<open>d.get(key, default)\<close> on an optional field.\<close>

definition get_default :: "'a option \<Rightarrow> 'a \<Rightarrow> 'a" where
  "get_default field dflt = (case field of None \<Rightarrow> dflt | Some v \<Rightarrow> v)"

text \<open>
  \<^verbatim>\<open>str.lower\<close> is a builtin over all of Unicode; the functions that call it take it as
  the parameter \<open>lower\<close>. \<open>lower_ascii\<close> is that function on ASCII text, for evaluating
  the model on concrete catalogs.
\<close>

definition lower_char :: "char \<Rightarrow> char" where
  "lower_char c =
     (if CHR ''A'' \<le> c \<and> c \<le> CHR ''Z'' then char_of (of_char c + (32::nat)) else c)"

definition lower_ascii :: "string \<Rightarrow> string" where
  "lower_ascii s = map lower_char s"

section \<open>Python floats\<close>

text \<open>
  The aggregation functions compute with Python floats: \<^verbatim>\<open>float(x)\<close>, the \<^verbatim>\<open>0.0\<close> that
  \<^verbatim>\<open>defaultdict(float)\<close> starts a key with, \<^verbatim>\<open>+\<close> and \<^verbatim>\<open>round(x, 2)\<close>. These builtins
  are parameters of the model, so that a theorem about the aggregation holds for any
  choice of them, the interpreter's included. \<^verbatim>\<open>float(x)\<close> raises \<^verbatim>\<open>OverflowError\<close> on
  an integer beyond the range of a double: \<open>to_float\<close> returns \<open>None\<close> there. Float
  addition and \<^verbatim>\<open>round\<close> with a number of digits raise nothing.
\<close>

datatype py_error = OverflowError

record 'f float_ops =
  to_float :: "rat \<Rightarrow> 'f option"
  fzero :: 'f
  fadd :: "'f \<Rightarrow> 'f \<Rightarrow> 'f"
  round2 :: "'f \<Rightarrow> 'f"

text \<open>
  \<open>ieee_double\<close> is the choice the interpreter makes: IEEE 754 binary64 with
  round-to-nearest, ties to even. A finite double is kept as the rational it denotes
  (zero carries no sign). \<open>bits n\<close> is the bit length of \<open>n\<close>; \<open>expoente x\<close> is
  the \<open>e\<close> with \<open>2^e \<le> x < 2^(e+1)\<close> for a positive \<open>x\<close>; \<open>double_round\<close> rounds to
  53 significant bits, and to a multiple of \<open>2^-1074\<close> below \<open>2^-1022\<close>; a result
  of magnitude \<open>2^1024\<close> or more (exponent 1024 or more) is an infinity for the
  arithmetic and an \<^verbatim>\<open>OverflowError\<close> for \<^verbatim>\<open>float(x)\<close>. \<^verbatim>\<open>round(x, 2)\<close> rounds the exact value of \<open>x\<close>
  to two decimals, ties to even, and returns the nearest double.
\<close>

definition round_half_even :: "rat \<Rightarrow> int" where
  "round_half_even x =
     (let f = \<lfloor>x\<rfloor>; d = x - of_int f
      in if d < 1 / 2 then f else if 1 / 2 < d then f + 1 else if even f then f else f + 1)"

function bits :: "int \<Rightarrow> int" where
  "bits n = (if n \<le> 0 then 0 else 1 + bits (n div 2))"
  by pat_completeness auto
termination
  by (relation "measure nat") auto

declare bits.simps [simp del]

definition expoente :: "rat \<Rightarrow> int" where
  "expoente x = (if 1 \<le> x then bits \<lfloor>x\<rfloor> - 1 else - bits (\<lceil>1 / x\<rceil> - 1))"

definition double_round :: "rat \<Rightarrow> rat" where
  "double_round x =
     (if x = 0 then 0
      else (let e = max (expoente \<bar>x\<bar>) (- 1022) - 52;
                ulp = (if 0 \<le> e then 2 ^ nat e else 1 / 2 ^ nat (- e))
            in of_int (round_half_even (x / ulp)) * ulp))"

datatype double = Finite rat | PosInf | NegInf | NaN

definition of_exact :: "rat \<Rightarrow> double" where
  "of_exact x =
     (if x = 0 then Finite 0
      else if 1024 \<le> expoente \<bar>x\<bar> then (if 0 < x then PosInf else NegInf)
      else (let r = double_round x
            in if 1024 \<le> expoente \<bar>r\<bar> then (if 0 < r then PosInf else NegInf)
               else Finite r))"

fun double_add :: "double \<Rightarrow> double \<Rightarrow> double" where
  "double_add (Finite a) (Finite b) = of_exact (a + b)"
| "double_add NaN _ = NaN"
| "double_add _ NaN = NaN"
| "double_add PosInf NegInf = NaN"
| "double_add NegInf PosInf = NaN"
| "double_add PosInf _ = PosInf"
| "double_add _ PosInf = PosInf"
| "double_add NegInf _ = NegInf"
| "double_add _ NegInf = NegInf"

fun double_round2 :: "double \<Rightarrow> double" where
  "double_round2 (Finite a) = of_exact (of_int (round_half_even (a * 100)) / 100)"
| "double_round2 d = d"

definition double_of :: "rat \<Rightarrow> double option" where
  "double_of x = (case of_exact x of Finite r \<Rightarrow> Some (Finite r) | _ \<Rightarrow> None)"

definition ieee_double :: "double float_ops" where
  "ieee_double =
     \<lparr>to_float = double_of, fzero = Finite 0, fadd = double_add, round2 = double_round2\<rparr>"

section \<open>Auxiliary functions\<close>

text \<open>\<^verbatim>\<open>buscar_receita_por_id\<close>: the first recipe with that id, or \<^verbatim>\<open>None\<close>.\<close>

fun buscar_receita_por_id :: "receita list \<Rightarrow> int \<Rightarrow> receita option" where
  "buscar_receita_por_id [] receita_id = None"
| "buscar_receita_por_id (receita # resto) receita_id =
     (if IdReceita receita = receita_id then Some receita
      else buscar_receita_por_id resto receita_id)"

text \<open>
  \<^verbatim>\<open>somados[nome] += valor\<close> on a \<^verbatim>\<open>defaultdict(float)\<close>, the dict being an association
  list in insertion order: a key that is there gets \<open>old + valor\<close> in place, a new key is
  appended with \<open>0.0 + valor\<close>.
\<close>

fun acumular :: "'f float_ops \<Rightarrow> (string \<times> 'f) list \<Rightarrow> string \<Rightarrow> 'f \<Rightarrow> (string \<times> 'f) list" where
  "acumular fl [] nome valor = [(nome, fadd fl (fzero fl) valor)]"
| "acumular fl ((k, v) # d) nome valor =
     (if k = nome then (k, fadd fl v valor) # d else (k, v) # acumular fl d nome valor)"

text \<open>
  The inner loop of both aggregation functions: for each item, in order, read its name,
  convert its number with \<^verbatim>\<open>float(...)\<close> and add it to the dict. The loop stops at the
  first number that \<^verbatim>\<open>float\<close> rejects, and the exception leaves the function.
\<close>

fun acumular_todos ::
    "'f float_ops \<Rightarrow> (string \<times> 'f) list \<Rightarrow> (string \<times> rat) list \<Rightarrow> py_error + (string \<times> 'f) list" where
  "acumular_todos fl d [] = Inr d"
| "acumular_todos fl d ((nome, numero) # itens) =
     (case to_float fl numero of
        None \<Rightarrow> Inl OverflowError
      | Some valor \<Rightarrow> acumular_todos fl (acumular fl d nome valor) itens)"

definition itens_ingredientes :: "receita \<Rightarrow> (string \<times> rat) list" where
  "itens_ingredientes receita =
     map (\<lambda>ing. (NomeIngrediente ing, Quantidade ing)) (get_default (Ingredientes receita) [])"

definition itens_macros :: "receita \<Rightarrow> (string \<times> rat) list" where
  "itens_macros receita =
     map (\<lambda>macro. (Tipo macro, Valor macro)) (get_default (Macronutrientes receita) [])"

text \<open>
  \<^verbatim>\<open>somar_ingredientes\<close>: the two nested loops fill the dict, then
  \<^verbatim>\<open>sorted(ingredientes_somados.items())\<close> orders the items (by key: the keys of a dict are
  distinct, so the values are never compared) and each total is rounded. An output entry
  \<^verbatim>\<open>{'NomeIngrediente': nome, 'QuantidadeTotal': total}\<close> is the pair \<open>(nome, total)\<close>.
\<close>

fun somar_ingredientes_laco ::
    "'f float_ops \<Rightarrow> (string \<times> 'f) list \<Rightarrow> receita list \<Rightarrow> py_error + (string \<times> 'f) list" where
  "somar_ingredientes_laco fl ingredientes_somados [] = Inr ingredientes_somados"
| "somar_ingredientes_laco fl ingredientes_somados (receita # resto) =
     (case acumular_todos fl ingredientes_somados (itens_ingredientes receita) of
        Inl e \<Rightarrow> Inl e
      | Inr d \<Rightarrow> somar_ingredientes_laco fl d resto)"

definition somar_ingredientes :: "'f float_ops \<Rightarrow> receita list \<Rightarrow> py_error + (string \<times> 'f) list" where
  "somar_ingredientes fl lista_receitas =
     (case somar_ingredientes_laco fl [] lista_receitas of
        Inl e \<Rightarrow> Inl e
      | Inr ingredientes_somados \<Rightarrow>
          Inr (map (\<lambda>(nome, qtd). (nome, round2 fl qtd)) (sort_key fst ingredientes_somados)))"

text \<open>
  \<^verbatim>\<open>somar_macros\<close>: the state of the loop is \<^verbatim>\<open>calorias_total\<close> and the dict. For each
  recipe the calories are converted and added first, then the recipe's macros. The sum
  \<^verbatim>\<open>calorias_total\<close> starts as the integer \<^verbatim>\<open>0\<close>, which the first \<^verbatim>\<open>+=\<close> of a float
  converts to \<^verbatim>\<open>0.0\<close>; the routes call the function with at least one recipe.
\<close>

record 'f macros_somados =
  CaloriasTotaisSomadas :: 'f
  MacronutrientesSomados :: "(string \<times> 'f) list"

fun somar_macros_laco ::
    "'f float_ops \<Rightarrow> 'f \<Rightarrow> (string \<times> 'f) list \<Rightarrow> receita list \<Rightarrow> py_error + 'f \<times> (string \<times> 'f) list" where
  "somar_macros_laco fl calorias_total macros_somados [] = Inr (calorias_total, macros_somados)"
| "somar_macros_laco fl calorias_total macros_somados (receita # resto) =
     (case to_float fl (get_default (CaloriasTotais receita) 0) of
        None \<Rightarrow> Inl OverflowError
      | Some c \<Rightarrow>
          (case acumular_todos fl macros_somados (itens_macros receita) of
             Inl e \<Rightarrow> Inl e
           | Inr d \<Rightarrow> somar_macros_laco fl (fadd fl calorias_total c) d resto))"

definition somar_macros :: "'f float_ops \<Rightarrow> receita list \<Rightarrow> py_error + 'f macros_somados" where
  "somar_macros fl lista_receitas =
     (case somar_macros_laco fl (fzero fl) [] lista_receitas of
        Inl e \<Rightarrow> Inl e
      | Inr (calorias_total, macros_somados) \<Rightarrow>
          Inr \<lparr>CaloriasTotaisSomadas = round2 fl calorias_total,
               MacronutrientesSomados =
                 map (\<lambda>(tipo, valor). (tipo, round2 fl valor)) (sort_key fst macros_somados)\<rparr>)"

text \<open>
  What the specification says \<^verbatim>\<open>somar_ingredientes\<close> returns, written from its words:
  take every ingredient occurrence of every recipe, in order; for each name that occurs,
  in lexicographic order of the names, add up the quantities of the occurrences with
  exactly that name (as floats, from \<^verbatim>\<open>0.0\<close>, in order of occurrence) and round the
  total to two decimals. \<open>converte_ingredientes\<close> says that \<^verbatim>\<open>float\<close> accepts every
  quantity of the recipes, \<open>converte_macros\<close> that it accepts their calories and the
  values of their macros.
\<close>

definition ocorrencias :: "receita list \<Rightarrow> ingrediente list" where
  "ocorrencias lista_receitas =
     concat (map (\<lambda>receita. get_default (Ingredientes receita) []) lista_receitas)"

definition total_de :: "'f float_ops \<Rightarrow> ingrediente list \<Rightarrow> string \<Rightarrow> 'f" where
  "total_de fl ings nome =
     foldl (fadd fl) (fzero fl)
       (map (\<lambda>ing. the (to_float fl (Quantidade ing)))
         (filter (\<lambda>ing. NomeIngrediente ing = nome) ings))"

definition sumIngredients_spec :: "'f float_ops \<Rightarrow> receita list \<Rightarrow> (string \<times> 'f) list" where
  "sumIngredients_spec fl lista_receitas =
     map (\<lambda>nome. (nome, round2 fl (total_de fl (ocorrencias lista_receitas) nome)))
       (sorted_list_of_set (NomeIngrediente ` set (ocorrencias lista_receitas)))"

definition converte_ingredientes :: "'f float_ops \<Rightarrow> receita list \<Rightarrow> bool" where
  "converte_ingredientes fl lista_receitas =
     list_all (\<lambda>ing. to_float fl (Quantidade ing) \<noteq> None) (ocorrencias lista_receitas)"

definition converte_macros :: "'f float_ops \<Rightarrow> receita list \<Rightarrow> bool" where
  "converte_macros fl lista_receitas =
     list_all (\<lambda>receita. to_float fl (get_default (CaloriasTotais receita) 0) \<noteq> None
         \<and> list_all (\<lambda>macro. to_float fl (Valor macro) \<noteq> None)
             (get_default (Macronutrientes receita) []))
       lista_receitas"


text \<open>\<^verbatim>\<open>obter_tags_unicas\<close>: the set of tags, absent ones read as \<^verbatim>\<open>'Outros'\<close>, sorted.\<close>

definition obter_tags_unicas :: "receita list \<Rightarrow> string list" where
  "obter_tags_unicas RECEITAS =
     sort (remdups (map (\<lambda>receita. get_default (Tag receita) ''Outros'') RECEITAS))"




section \<open>Routes over the catalog\<close>

text \<open>
  \<^verbatim>\<open>GET /receitas/tag/<tag>\<close>. The response keys \<^verbatim>\<open>tag\<close>, \<^verbatim>\<open>total\<close>, \<^verbatim>\<open>receitas\<close>
  are the fields \<open>tag_filtro\<close>, \<open>total_filtradas\<close>, \<open>receitas_filtradas\<close>.
\<close>

record resposta_tag =
  tag_filtro :: string
  total_filtradas :: nat
  receitas_filtradas :: "receita list"

definition filtrar_por_tag :: "(string \<Rightarrow> string) \<Rightarrow> receita list \<Rightarrow> string \<Rightarrow> resposta_tag" where
  "filtrar_por_tag lower RECEITAS tag =
     (let filtradas = filter (\<lambda>r. lower (get_default (Tag r) []) = lower tag) RECEITAS
      in \<lparr>tag_filtro = tag, total_filtradas = length filtradas, receitas_filtradas = filtradas\<rparr>)"



text \<open>
  \<^verbatim>\<open>GET /tags\<close>. \<^verbatim>\<open>contagem\<close> is a dict built in the order of \<^verbatim>\<open>tags\<close>; its test is
  \<^verbatim>\<open>r.get('Tag') == tag\<close>, with no default, so a recipe without the key compares
  \<^verbatim>\<open>None\<close> with the tag.
\<close>

record resposta_tags =
  tags :: "string list"
  contagem_por_tag :: "(string \<times> nat) list"

definition listar_tags :: "receita list \<Rightarrow> resposta_tags" where
  "listar_tags RECEITAS =
     (let ts = obter_tags_unicas RECEITAS;
          contagem = map (\<lambda>t. (t, length (filter (\<lambda>r. Tag r = Some t) RECEITAS))) ts
      in \<lparr>tags = ts, contagem_por_tag = contagem\<rparr>)"

text \<open>
  \<^verbatim>\<open>POST /receitas/ingredientes\<close> and \<^verbatim>\<open>POST /receitas/macros\<close>. \<open>data\<close> is the parsed
  body: \<open>None\<close> when \<^verbatim>\<open>get_json()\<close> gave \<^verbatim>\<open>None\<close>, else a JSON object whose members are
  lists of integer ids. The comprehension \<^verbatim>\<open>[r for r in receitas_encontradas if r]\<close>
  drops the \<^verbatim>\<open>None\<close> of every id that was not found; a recipe that was found is a dict
  with at least its \<^verbatim>\<open>IdReceita\<close> key, hence true. An exception of the aggregation
  is not caught, and the request is answered 500. The response key
  \<^verbatim>\<open>ingredientes_somados\<close> (\<^verbatim>\<open>resultados\<close> for the macros) is the field \<open>somados\<close>.
\<close>

record 'a resposta_multiplas =
  receitas_ids :: "int list"
  receitas_nomes :: "string list"
  total_receitas :: nat
  somados :: 'a

definition resolver_ids :: "receita list \<Rightarrow> int list \<Rightarrow> receita list" where
  "resolver_ids RECEITAS ids =
     map the (filter (\<lambda>r. r \<noteq> None) (map (buscar_receita_por_id RECEITAS) ids))"

definition ingredientes_multiplas_receitas ::
    "'f float_ops \<Rightarrow> receita list \<Rightarrow> (string \<times> int list) list option
      \<Rightarrow> http_error + (string \<times> 'f) list resposta_multiplas" where
  "ingredientes_multiplas_receitas fl RECEITAS data =
     (case data of
        None \<Rightarrow> Inl BadRequest
      | Some d \<Rightarrow>
          (case (if d = [] then None else map_of d ''ids'') of
             None \<Rightarrow> Inl BadRequest
           | Some ids \<Rightarrow>
               (let encontradas = resolver_ids RECEITAS ids
                in if encontradas = [] then Inl NotFound
                   else (case somar_ingredientes fl encontradas of
                           Inl e \<Rightarrow> Inl InternalServerError
                         | Inr totais \<Rightarrow>
                             Inr \<lparr>receitas_ids = ids,
                                  receitas_nomes = map NomeReceita encontradas,
                                  total_receitas = length encontradas,
                                  somados = totais\<rparr>))))"

definition macros_multiplas_receitas ::
    "'f float_ops \<Rightarrow> receita list \<Rightarrow> (string \<times> int list) list option
      \<Rightarrow> http_error + 'f macros_somados resposta_multiplas" where
  "macros_multiplas_receitas fl RECEITAS data =
     (case data of
        None \<Rightarrow> Inl BadRequest
      | Some d \<Rightarrow>
          (case (if d = [] then None else map_of d ''ids'') of
             None \<Rightarrow> Inl BadRequest
           | Some ids \<Rightarrow>
               (let encontradas = resolver_ids RECEITAS ids
                in if encontradas = [] then Inl NotFound
                   else (case somar_macros fl encontradas of
                           Inl e \<Rightarrow> Inl InternalServerError
                         | Inr totais \<Rightarrow>
                             Inr \<lparr>receitas_ids = ids,
                                  receitas_nomes = map NomeReceita encontradas,
                                  total_receitas = length encontradas,
                                  somados = totais\<rparr>))))"




section \<open>Example data\<close>

text \<open>A recipe that has only the two keys every recipe has, and one with a tag.\<close>

definition receita_minima :: "int \<Rightarrow> string \<Rightarrow> receita" where
  "receita_minima i nome =
     \<lparr>IdReceita = i, NomeReceita = nome, Tag = None, CaloriasTotais = None,
      Ingredientes = None, Macronutrientes = None, Restricoes = None\<rparr>"

definition receita_doce :: "int \<Rightarrow> string \<Rightarrow> rat \<Rightarrow> receita" where
  "receita_doce i nome leite =
     \<lparr>IdReceita = i, NomeReceita = nome, Tag = Some ''Doce'', CaloriasTotais = None,
      Ingredientes = Some [\<lparr>NomeIngrediente = ''Leite'', Quantidade = leite\<rparr>],
      Macronutrientes = None, Restricoes = None\<rparr>"

text \<open>An integer quantity beyond the range of a double: \<^verbatim>\<open>float(10 ** 309)\<close> raises.\<close>

definition quantidade_enorme :: rat where
  "quantidade_enorme = 10 ^ 309"

section \<open>Vocabulary of the proofs\<close>

text \<open>The bit length of a positive numeral, read off its binary digits.\<close>

fun bits_num :: "num \<Rightarrow> nat" where
  "bits_num num.One = 1"
| "bits_num (num.Bit0 k) = Suc (bits_num k)"
| "bits_num (num.Bit1 k) = Suc (bits_num k)"


text \<open>
  The body of the inner loop of \<^verbatim>\<open>somar_ingredientes\<close> as a step on the dict, for a
  quantity that \<^verbatim>\<open>float\<close> accepts, and the value \<^verbatim>\<open>somados[k]\<close> would read before a
  \<^verbatim>\<open>+=\<close> (\<^verbatim>\<open>0.0\<close> for a new key).
\<close>

abbreviation passo_ing :: "'f float_ops \<Rightarrow> (string \<times> 'f) list \<Rightarrow> ingrediente \<Rightarrow> (string \<times> 'f) list" where
  "passo_ing fl \<equiv> (\<lambda>d ing. acumular fl d (NomeIngrediente ing) (the (to_float fl (Quantidade ing))))"

definition valor_atual :: "'f float_ops \<Rightarrow> (string \<times> 'f) list \<Rightarrow> string \<Rightarrow> 'f" where
  "valor_atual fl d k = (case map_of d k of None \<Rightarrow> fzero fl | Some w \<Rightarrow> w)"

section \<open>Mailbox properties\<close>

lemma truthy_not_JNull: "truthy d \<Longrightarrow> d \<noteq> JNull"
  by auto

lemma enviar_aceito_iff: "fst (enviar_contexto s d) = Inr ContextoSalvo \<longleftrightarrow> truthy d"
  by (simp add: enviar_contexto_def)

lemma passo_inv: "s = JNull \<or> truthy s \<Longrightarrow> passo s p = JNull \<or> truthy (passo s p)"
  by (cases p) (auto simp: enviar_contexto_def pegar_contexto_def)

lemma foldl_passo_inv: "s = JNull \<or> truthy s \<Longrightarrow> foldl passo s ps = JNull \<or> truthy (foldl passo s ps)"
proof (induction ps arbitrary: s)
  case Nil
  then show ?case by simp
next
  case (Cons p ps)
  have "passo s p = JNull \<or> truthy (passo s p)"
    using Cons.prems by (rule passo_inv)
  then show ?case
    using Cons.IH [of "passo s p"] by simp
qed

text \<open>
  C1. Mailbox round-trip. From any slot \<open>s\<close>, when \<open>send(X)\<close> is accepted, the
  following \<open>take()\<close> answers with \<open>X\<close> and leaves the slot empty, and a second
  \<open>take()\<close> right after it fails with 404 (NotFound).
\<close>

theorem mailbox_round_trip:
  assumes "fst (enviar_contexto s X) = Inr ContextoSalvo"
  shows "pegar_contexto (snd (enviar_contexto s X)) = (Inr (Dados X), JNull)
       \<and> pegar_contexto (snd (pegar_contexto (snd (enviar_contexto s X)))) = (Inl NotFound, JNull)"
proof -
  from assms have t: "truthy X"
    by (simp add: enviar_aceito_iff)
  then have "X \<noteq> JNull"
    by (rule truthy_not_JNull)
  with t show ?thesis
    by (simp add: enviar_contexto_def pegar_contexto_def)
qed

theorem mailbox_round_trip_witness:
  "fst (enviar_contexto (JInt 7) (JObj [(''receitas'', JArr [JInt 1, JInt 2])])) = Inr ContextoSalvo
   \<and> pegar_contexto (snd (enviar_contexto (JInt 7) (JObj [(''receitas'', JArr [JInt 1, JInt 2])])))
       = (Inr (Dados (JObj [(''receitas'', JArr [JInt 1, JInt 2])])), JNull)
   \<and> pegar_contexto (snd (pegar_contexto (snd (enviar_contexto (JInt 7)
         (JObj [(''receitas'', JArr [JInt 1, JInt 2])])))))
       = (Inl NotFound, JNull)"
proof -
  have h: "fst (enviar_contexto (JInt 7) (JObj [(''receitas'', JArr [JInt 1, JInt 2])])) = Inr ContextoSalvo"
    by (simp add: enviar_contexto_def)
  show ?thesis
    using h mailbox_round_trip [OF h] by blast
qed

text \<open>
  C2, as the code has it. \<open>send(value)\<close> succeeds exactly when the value is true in
  Python's sense; it then puts the value in the slot whatever the slot held, and a value
  that is not true is answered with 400 and leaves the slot as it was. After two accepted
  sends \<open>send(X); send(Y)\<close> the next \<open>take()\<close> returns \<open>Y\<close> and empties the slot, and
  the take after that finds nothing: \<open>X\<close> is gone.
\<close>

theorem mailbox_overwrite:
  assumes "truthy X" and "truthy Y"
  shows "enviar_contexto s v = (if truthy v then (Inr ContextoSalvo, v) else (Inl BadRequest, s))
       \<and> pegar_contexto (snd (enviar_contexto (snd (enviar_contexto s X)) Y)) = (Inr (Dados Y), JNull)
       \<and> pegar_contexto (snd (pegar_contexto (snd (enviar_contexto (snd (enviar_contexto s X)) Y))))
           = (Inl NotFound, JNull)"
proof -
  have "Y \<noteq> JNull"
    using assms(2) by (rule truthy_not_JNull)
  with assms show ?thesis
    by (simp add: enviar_contexto_def pegar_contexto_def)
qed

theorem mailbox_overwrite_witness:
  "truthy (JStr ''x'') \<and> truthy (JArr [JInt 1])
   \<and> enviar_contexto JNull (JInt 0) = (Inl BadRequest, JNull)
   \<and> pegar_contexto (snd (enviar_contexto (snd (enviar_contexto JNull (JStr ''x''))) (JArr [JInt 1])))
       = (Inr (Dados (JArr [JInt 1])), JNull)
   \<and> pegar_contexto (snd (pegar_contexto
         (snd (enviar_contexto (snd (enviar_contexto JNull (JStr ''x''))) (JArr [JInt 1])))))
       = (Inl NotFound, JNull)"
proof -
  have x: "truthy (JStr ''x'')" and y: "truthy (JArr [JInt 1])"
    by simp_all
  have z: "\<not> truthy (JInt 0)"
    by simp
  note m = mailbox_overwrite [OF x y, of JNull "JInt 0"]
  have e: "enviar_contexto JNull (JInt 0) = (Inl BadRequest, JNull)"
    using m [THEN conjunct1] z by simp
  show ?thesis
    using x y e m by blast
qed

text \<open>
  The claim as the spec words it fails: with \<open>X = "x"\<close> in the slot, \<open>send({})\<close> is
  refused with 400, the slot still holds \<open>X\<close>, and the next \<open>take()\<close> returns \<open>X\<close>.
\<close>

theorem mailbox_overwrite_counterexample:
  "fst (enviar_contexto (snd (enviar_contexto JNull (JStr ''x''))) (JObj [])) = Inl BadRequest
   \<and> snd (enviar_contexto (snd (enviar_contexto JNull (JStr ''x''))) (JObj [])) \<noteq> JObj []
   \<and> pegar_contexto (snd (enviar_contexto (snd (enviar_contexto JNull (JStr ''x''))) (JObj [])))
       = (Inr (Dados (JStr ''x'')), JNull)"
  by (simp add: enviar_contexto_def pegar_contexto_def)

text \<open>
  C10. \<open>send\<close> answers 400 to every body that is false in Python's sense and leaves the
  slot alone: \<open>null\<close>, \<open>false\<close>, \<open>0\<close>, the empty string, list and object are such
  bodies. So after any sequence of requests, started from the empty slot of the module,
  the slot is \<open>None\<close> or holds a true value; on those slots \<open>take\<close> answers 404 exactly
  when the slot holds no true value; and a value that \<open>send\<close> accepted is what the next
  \<open>take\<close> returns, never taken for an empty mailbox.
\<close>

theorem mailbox_slot_invariant:
  "(\<not> truthy d \<longrightarrow> enviar_contexto s d = (Inl BadRequest, s))
   \<and> \<not> truthy JNull \<and> \<not> truthy (JBool False) \<and> \<not> truthy (JInt 0)
   \<and> \<not> truthy (JStr []) \<and> \<not> truthy (JArr []) \<and> \<not> truthy (JObj [])
   \<and> (executar ps = JNull \<or> truthy (executar ps))
   \<and> (fst (pegar_contexto (executar ps)) = Inl NotFound \<longleftrightarrow> \<not> truthy (executar ps))
   \<and> (fst (enviar_contexto s d) = Inr ContextoSalvo \<longrightarrow>
        pegar_contexto (snd (enviar_contexto s d)) = (Inr (Dados d), JNull))"
proof -
  have inv: "executar ps = JNull \<or> truthy (executar ps)"
    unfolding executar_def by (rule foldl_passo_inv) simp
  have exact: "fst (pegar_contexto (executar ps)) = Inl NotFound \<longleftrightarrow> \<not> truthy (executar ps)"
    using inv by (auto simp: pegar_contexto_def)
  have rejected: "\<not> truthy d \<longrightarrow> enviar_contexto s d = (Inl BadRequest, s)"
    by (simp add: enviar_contexto_def)
  have kept: "fst (enviar_contexto s d) = Inr ContextoSalvo \<longrightarrow>
      pegar_contexto (snd (enviar_contexto s d)) = (Inr (Dados d), JNull)"
    by (auto simp: enviar_contexto_def pegar_contexto_def)
  from inv exact rejected kept show ?thesis
    by simp
qed

theorem mailbox_slot_invariant_witness:
  "\<not> truthy (JFloat 0) \<and> enviar_contexto (JInt 1) (JFloat 0) = (Inl BadRequest, JInt 1)
   \<and> truthy (executar [Enviar (JObj []), Enviar (JInt 3), Pegar, Enviar (JStr ''a''), Enviar JNull])
   \<and> fst (pegar_contexto (executar [Enviar (JObj []), Enviar (JInt 3), Pegar, Enviar (JStr ''a''), Enviar JNull]))
       \<noteq> Inl NotFound
   \<and> fst (enviar_contexto JNull (JBool True)) = Inr ContextoSalvo
   \<and> pegar_contexto (snd (enviar_contexto JNull (JBool True))) = (Inr (Dados (JBool True)), JNull)"
proof -
  let ?ps = "[Enviar (JObj []), Enviar (JInt 3), Pegar, Enviar (JStr ''a''), Enviar JNull]"
  have f: "\<not> truthy (JFloat 0)"
    by simp
  have r: "executar ?ps = JStr ''a''"
    by (simp add: executar_def enviar_contexto_def pegar_contexto_def)
  have a: "fst (enviar_contexto JNull (JBool True)) = Inr ContextoSalvo"
    by (simp add: enviar_contexto_def)
  note m1 = mailbox_slot_invariant [of "JFloat 0" "JInt 1" ?ps]
  note m2 = mailbox_slot_invariant [of "JBool True" JNull ?ps]
  have t: "truthy (executar ?ps)"
    using r by simp
  from m1 f have e: "enviar_contexto (JInt 1) (JFloat 0) = (Inl BadRequest, JInt 1)"
    by blast
  from m1 t have n: "fst (pegar_contexto (executar ?ps)) \<noteq> Inl NotFound"
    by blast
  from m2 a have k: "pegar_contexto (snd (enviar_contexto JNull (JBool True))) = (Inr (Dados (JBool True)), JNull)"
    by blast
  from f e t n a k show ?thesis
    by blast
qed

section \<open>Search by name\<close>



section \<open>Extremes by calories\<close>










section \<open>Tags\<close>

text \<open>
  C4. The counts of \<^verbatim>\<open>GET /tags\<close> do not default a missing tag: for a catalog whose only
  recipe has no \<^verbatim>\<open>Tag\<close> key, \<^verbatim>\<open>obter_tags_unicas\<close> lists the tag \<^verbatim>\<open>Outros\<close> and
  \<^verbatim>\<open>contagem_por_tag\<close> gives it the count 0, while one recipe has that tag after
  defaulting; the counts add up to 0, not to the catalog size 1.
\<close>

theorem listar_tags_sem_tag:
  "listar_tags [receita_minima 1 ''Bolo'']
     = \<lparr>tags = [''Outros''], contagem_por_tag = [(''Outros'', 0)]\<rparr>"
  by (simp add: listar_tags_def obter_tags_unicas_def receita_minima_def get_default_def)

text \<open>
  When every recipe has its \<^verbatim>\<open>Tag\<close> key the counts are those of the defaulted tags,
  and they add up to the size of the catalog.
\<close>

lemma listar_tags_com_tags:
  assumes "\<forall>r \<in> set RECEITAS. Tag r \<noteq> None"
  shows "contagem_por_tag (listar_tags RECEITAS)
     = map (\<lambda>t. (t, length (filter (\<lambda>r. get_default (Tag r) ''Outros'' = t) RECEITAS)))
         (tags (listar_tags RECEITAS))"
proof -
  have "(Tag r = Some t) = (get_default (Tag r) ''Outros'' = t)" if "r \<in> set RECEITAS" for r t
    using assms that by (auto simp: get_default_def)
  then have "filter (\<lambda>r. Tag r = Some t) RECEITAS
      = filter (\<lambda>r. get_default (Tag r) ''Outros'' = t) RECEITAS" for t
    by (intro filter_cong) auto
  then show ?thesis
    by (simp add: listar_tags_def Let_def)
qed

lemma sum_contagem:
  "finite T \<Longrightarrow> f ` set xs \<subseteq> T \<Longrightarrow> (\<Sum>t\<in>T. length (filter (\<lambda>r. f r = t) xs)) = length xs"
proof (induction xs)
  case Nil
  then show ?case by simp
next
  case (Cons x xs)
  then have "f x \<in> T" and "f ` set xs \<subseteq> T"
    by auto
  have "(\<Sum>t\<in>T. length (filter (\<lambda>r. f r = t) (x # xs)))
      = (\<Sum>t\<in>T. (if t = f x then 1 else 0) + length (filter (\<lambda>r. f r = t) xs))"
    by (intro sum.cong) auto
  also have "\<dots> = (\<Sum>t\<in>T. if t = f x then 1 else 0) + (\<Sum>t\<in>T. length (filter (\<lambda>r. f r = t) xs))"
    by (rule sum.distrib)
  also have "(\<Sum>t\<in>T. if t = f x then 1 else 0) = (1::nat)"
    using \<open>finite T\<close> \<open>f x \<in> T\<close> by simp
  also have "(\<Sum>t\<in>T. length (filter (\<lambda>r. f r = t) xs)) = length xs"
    using Cons.IH \<open>finite T\<close> \<open>f ` set xs \<subseteq> T\<close> by simp
  finally show ?case
    by simp
qed

lemma soma_contagem_com_tags:
  assumes "\<forall>r \<in> set RECEITAS. Tag r \<noteq> None"
  shows "sum_list (map snd (contagem_por_tag (listar_tags RECEITAS))) = length RECEITAS"
proof -
  let ?f = "\<lambda>r. get_default (Tag r) ''Outros''"
  let ?ts = "obter_tags_unicas RECEITAS"
  have ts: "tags (listar_tags RECEITAS) = ?ts"
    by (simp add: listar_tags_def Let_def)
  have dist: "distinct ?ts" and set_ts: "set ?ts = ?f ` set RECEITAS"
    by (simp_all add: obter_tags_unicas_def)
  have "map snd (contagem_por_tag (listar_tags RECEITAS))
      = map (\<lambda>t. length (filter (\<lambda>r. ?f r = t) RECEITAS)) ?ts"
    unfolding listar_tags_com_tags [OF assms] ts by (simp add: comp_def)
  then have "sum_list (map snd (contagem_por_tag (listar_tags RECEITAS)))
      = (\<Sum>t\<in>set ?ts. length (filter (\<lambda>r. ?f r = t) RECEITAS))"
    using dist by (simp add: sum_list_distinct_conv_sum_set)
  also have "\<dots> = length RECEITAS"
    by (rule sum_contagem) (simp_all add: set_ts)
  finally show ?thesis .
qed

text \<open>
  C5. \<^verbatim>\<open>GET /receitas/tag/<tag>\<close> reads a missing tag as the empty string, not as
  \<^verbatim>\<open>Outros\<close>: for a catalog whose only recipe has no \<^verbatim>\<open>Tag\<close> key, the query
  \<^verbatim>\<open>Outros\<close> returns no recipe, although \<^verbatim>\<open>GET /tags\<close> lists \<^verbatim>\<open>Outros\<close> for that
  same catalog.
\<close>

theorem filtrar_por_tag_sem_tag:
  "filtrar_por_tag lower_ascii [receita_minima 1 ''Bolo''] ''Outros''
     = \<lparr>tag_filtro = ''Outros'', total_filtradas = 0, receitas_filtradas = []\<rparr>
   \<and> ''Outros'' \<in> set (tags (listar_tags [receita_minima 1 ''Bolo'']))"
  by code_simp

text \<open>
  When every recipe has its \<^verbatim>\<open>Tag\<close> key the route returns the recipes, in catalog
  order, whose tag equals the query up to case.
\<close>

lemma filtrar_por_tag_com_tags:
  assumes "\<forall>r \<in> set RECEITAS. Tag r \<noteq> None"
  shows "receitas_filtradas (filtrar_por_tag lower RECEITAS tag)
     = filter (\<lambda>r. lower (get_default (Tag r) ''Outros'') = lower tag) RECEITAS"
proof -
  have "get_default (Tag r) [] = get_default (Tag r) ''Outros''" if "r \<in> set RECEITAS" for r
    using assms that by (auto simp: get_default_def)
  then have "filter (\<lambda>r. lower (get_default (Tag r) []) = lower tag) RECEITAS
      = filter (\<lambda>r. lower (get_default (Tag r) ''Outros'') = lower tag) RECEITAS"
    by (intro filter_cong) auto
  then show ?thesis
    by (simp add: filtrar_por_tag_def Let_def)
qed

section \<open>Float conversion and the loops\<close>

lemma bits_numeral: "bits (numeral k) = int (bits_num k)"
proof (induction k)
  case One
  show ?case
    by (simp add: bits.simps)
next
  case (Bit0 k)
  have "bits (numeral (num.Bit0 k)) = 1 + bits (numeral (num.Bit0 k) div 2)"
    by (subst bits.simps) simp
  also have "numeral (num.Bit0 k) div (2::int) = numeral k"
    by simp
  finally show ?case
    using Bit0 by simp
next
  case (Bit1 k)
  have "bits (numeral (num.Bit1 k)) = 1 + bits (numeral (num.Bit1 k) div 2)"
    by (subst bits.simps) simp
  also have "numeral (num.Bit1 k) div (2::int) = numeral k"
    by simp
  finally show ?case
    using Bit1 by simp
qed

lemma float_quantidade_enorme: "to_float ieee_double quantidade_enorme = None"
  by (simp add: quantidade_enorme_def ieee_double_def double_of_def of_exact_def expoente_def
      bits_numeral)

lemma py_error_unico: "(e :: py_error) = OverflowError"
  by (cases e) simp

lemma acumular_todos_eq:
  "acumular_todos fl d itens =
     (if list_all (\<lambda>(k, q). to_float fl q \<noteq> None) itens
      then Inr (foldl (\<lambda>d (k, q). acumular fl d k (the (to_float fl q))) d itens)
      else Inl OverflowError)"
  by (induction itens arbitrary: d) (auto split: option.splits)

lemma acumular_todos_append:
  "acumular_todos fl d (xs @ ys) =
     (case acumular_todos fl d xs of Inl e \<Rightarrow> Inl e | Inr d' \<Rightarrow> acumular_todos fl d' ys)"
  by (induction xs arbitrary: d) (auto split: option.splits)

lemma somar_ingredientes_laco_eq:
  "somar_ingredientes_laco fl d lista = acumular_todos fl d (concat (map itens_ingredientes lista))"
  by (induction lista arbitrary: d) (simp_all add: acumular_todos_append split: sum.splits)

lemma itens_ocorrencias:
  "concat (map itens_ingredientes lista)
     = map (\<lambda>ing. (NomeIngrediente ing, Quantidade ing)) (ocorrencias lista)"
  by (induction lista) (simp_all add: ocorrencias_def itens_ingredientes_def)

lemma somar_ingredientes_laco_ocorrencias:
  "somar_ingredientes_laco fl d lista =
     (if converte_ingredientes fl lista then Inr (foldl (passo_ing fl) d (ocorrencias lista))
      else Inl OverflowError)"
  by (simp add: somar_ingredientes_laco_eq itens_ocorrencias acumular_todos_eq
      converte_ingredientes_def list_all_iff foldl_map split_def)

lemma somar_ingredientes_eq:
  "somar_ingredientes fl lista =
     (if converte_ingredientes fl lista
      then Inr (map (\<lambda>(nome, qtd). (nome, round2 fl qtd))
                 (sort_key fst (foldl (passo_ing fl) [] (ocorrencias lista))))
      else Inl OverflowError)"
  by (simp add: somar_ingredientes_def somar_ingredientes_laco_ocorrencias)

lemma somar_macros_laco_Inl:
  "(somar_macros_laco fl cal d lista = Inl OverflowError) = (\<not> converte_macros fl lista)"
proof (induction lista arbitrary: cal d)
  case Nil
  show ?case
    by (simp add: converte_macros_def)
next
  case (Cons r lista)
  have tail: "converte_macros fl (r # lista) =
      (to_float fl (get_default (CaloriasTotais r) 0) \<noteq> None
       \<and> list_all (\<lambda>macro. to_float fl (Valor macro) \<noteq> None) (get_default (Macronutrientes r) [])
       \<and> converte_macros fl lista)"
    by (simp add: converte_macros_def)
  have itens: "list_all (\<lambda>(k, q). to_float fl q \<noteq> None) (itens_macros r)
      = list_all (\<lambda>macro. to_float fl (Valor macro) \<noteq> None) (get_default (Macronutrientes r) [])"
    by (simp add: itens_macros_def list_all_iff)
  show ?case
    unfolding tail using itens
    by (auto simp: acumular_todos_eq Cons.IH split: option.splits)
qed

lemma somar_macros_Inl:
  "(somar_macros fl lista = Inl OverflowError) = (\<not> converte_macros fl lista)"
proof -
  have "(somar_macros fl lista = Inl OverflowError)
      = (somar_macros_laco fl (fzero fl) [] lista = Inl OverflowError)"
    by (auto simp: somar_macros_def py_error_unico split: sum.splits prod.splits)
  then show ?thesis
    by (simp add: somar_macros_laco_Inl)
qed

lemma somar_macros_Inr:
  "converte_macros fl lista \<Longrightarrow> \<exists>totais. somar_macros fl lista = Inr totais"
proof -
  assume "converte_macros fl lista"
  then have "somar_macros fl lista \<noteq> Inl OverflowError"
    by (simp add: somar_macros_Inl)
  then show ?thesis
    by (cases "somar_macros fl lista") (simp_all add: py_error_unico)
qed

section \<open>Summing ingredients\<close>

lemma keys_acumular:
  "map fst (acumular fl d k v) = (if k \<in> fst ` set d then map fst d else map fst d @ [k])"
  by (induction d) (auto split: if_splits)

lemma distinct_acumular:
  "distinct (map fst d) \<Longrightarrow> distinct (map fst (acumular fl d k v))"
  by (simp add: keys_acumular)

lemma set_keys_acumular: "fst ` set (acumular fl d k v) = insert k (fst ` set d)"
proof -
  have "set (map fst (acumular fl d k v)) = insert k (set (map fst d))"
    unfolding keys_acumular by auto
  then show ?thesis by simp
qed

lemma map_of_acumular:
  "map_of (acumular fl d k v) k' =
     (if k' = k then Some (fadd fl (valor_atual fl d k) v) else map_of d k')"
  by (induction d) (auto simp: valor_atual_def)

lemma valor_atual_acumular:
  "valor_atual fl (acumular fl d k v) k' =
     (if k' = k then fadd fl (valor_atual fl d k) v else valor_atual fl d k')"
  by (simp add: valor_atual_def map_of_acumular)

lemma distinct_foldl_passo:
  "distinct (map fst d) \<Longrightarrow> distinct (map fst (foldl (passo_ing fl) d ings))"
  by (induction ings arbitrary: d) (simp_all add: distinct_acumular)

lemma set_keys_foldl_passo:
  "fst ` set (foldl (passo_ing fl) d ings) = fst ` set d \<union> NomeIngrediente ` set ings"
  by (induction ings arbitrary: d) (simp_all add: set_keys_acumular)

lemma map_of_foldl_passo:
  "n \<in> fst ` set d \<union> NomeIngrediente ` set ings \<Longrightarrow>
   map_of (foldl (passo_ing fl) d ings) n =
     Some (foldl (fadd fl) (valor_atual fl d n)
       (map (\<lambda>ing. the (to_float fl (Quantidade ing))) (filter (\<lambda>ing. NomeIngrediente ing = n) ings)))"
proof (induction ings arbitrary: d)
  case Nil
  then obtain b where "(n, b) \<in> set d"
    by auto
  then obtain w where "map_of d n = Some w"
    by (blast dest: weak_map_of_SomeI)
  then show ?case
    by (simp add: valor_atual_def)
next
  case (Cons ing ings)
  let ?d = "acumular fl d (NomeIngrediente ing) (the (to_float fl (Quantidade ing)))"
  from Cons.prems have "n \<in> fst ` set ?d \<union> NomeIngrediente ` set ings"
    by (auto simp: set_keys_acumular)
  then have "map_of (foldl (passo_ing fl) ?d ings) n =
     Some (foldl (fadd fl) (valor_atual fl ?d n)
       (map (\<lambda>ing. the (to_float fl (Quantidade ing))) (filter (\<lambda>ing. NomeIngrediente ing = n) ings)))"
    by (rule Cons.IH)
  then show ?case
    by (simp add: valor_atual_acumular)
qed

lemma map_insort_key: "map f (insort_key f x xs) = insort (f x) (map f xs)"
  by (induction xs) simp_all

lemma map_sort_key: "map f (sort_key f xs) = sort (map f xs)"
  by (induction xs) (simp_all add: map_insort_key)

lemma sort_key_fst_distinct:
  assumes "distinct (map fst d)"
  shows "sort_key fst d = map (\<lambda>k. (k, the (map_of d k))) (sorted_list_of_set (fst ` set d))"
proof -
  have "(fst p, the (map_of d (fst p))) = p" if "p \<in> set (sort_key fst d)" for p
  proof -
    from that have "(fst p, snd p) \<in> set d"
      by simp
    with assms have "map_of d (fst p) = Some (snd p)"
      by (rule map_of_is_SomeI)
    then show ?thesis
      by simp
  qed
  then have "map (\<lambda>p. (fst p, the (map_of d (fst p)))) (sort_key fst d) = sort_key fst d"
    by (rule map_idI)
  then have "sort_key fst d = map (\<lambda>p. (fst p, the (map_of d (fst p)))) (sort_key fst d)"
    by (rule sym)
  also have "\<dots> = map (\<lambda>k. (k, the (map_of d k))) (map fst (sort_key fst d))"
    by simp
  also have "map fst (sort_key fst d) = sort (map fst d)"
    by (rule map_sort_key)
  also have "sort (map fst d) = sorted_list_of_set (set (map fst d))"
    unfolding sorted_list_of_set_sort_remdups distinct_remdups_id [OF assms] ..
  finally show ?thesis
    by simp
qed

lemma sorted_totais_refines:
  "map (\<lambda>(nome, qtd). (nome, round2 fl qtd))
       (sort_key fst (foldl (passo_ing fl) [] (ocorrencias lista)))
     = sumIngredients_spec fl lista"
proof -
  let ?D = "foldl (passo_ing fl) [] (ocorrencias lista)"
  let ?N = "NomeIngrediente ` set (ocorrencias lista)"
  have dist: "distinct (map fst ?D)"
    by (rule distinct_foldl_passo) simp
  have keys: "fst ` set ?D = ?N"
    by (simp add: set_keys_foldl_passo)
  have val: "the (map_of ?D n) = total_de fl (ocorrencias lista) n" if "n \<in> ?N" for n
    using that map_of_foldl_passo [of n "[]" "ocorrencias lista" fl]
    by (simp add: total_de_def valor_atual_def)
  have "sort_key fst ?D = map (\<lambda>k. (k, the (map_of ?D k))) (sorted_list_of_set ?N)"
    using sort_key_fst_distinct [OF dist] unfolding keys .
  then have "map (\<lambda>(nome, qtd). (nome, round2 fl qtd)) (sort_key fst ?D)
      = map (\<lambda>k. (k, round2 fl (the (map_of ?D k)))) (sorted_list_of_set ?N)"
    by simp
  also have "\<dots> = map (\<lambda>k. (k, round2 fl (total_de fl (ocorrencias lista) k))) (sorted_list_of_set ?N)"
    by (rule map_cong) (simp_all add: val)
  finally show ?thesis
    by (simp add: sumIngredients_spec_def)
qed

lemma somar_ingredientes_refines:
  "somar_ingredientes fl lista =
     (if converte_ingredientes fl lista then Inr (sumIngredients_spec fl lista)
      else Inl OverflowError)"
  by (simp add: somar_ingredientes_eq sorted_totais_refines)



lemma keys_sumIngredients_spec:
  "map fst (sumIngredients_spec fl lista) = sorted_list_of_set (NomeIngrediente ` set (ocorrencias lista))"
  by (simp add: sumIngredients_spec_def comp_def)

lemma somar_ingredientes_exemplo:
  assumes "to_float fl 100 = Some c100" and "to_float fl 50 = Some c50"
    and "fadd fl (fzero fl) c100 = c100"
    and "fadd fl c100 c50 = c150"
    and "round2 fl c150 = c150"
  shows "somar_ingredientes fl [receita_doce 1 nomeA 100, receita_doce 2 nomeB 50] = Inr [(''Leite'', c150)]"
  using assms
  by (simp add: somar_ingredientes_def itens_ingredientes_def receita_doce_def get_default_def)

text \<open>
  C6, as the code has it. When \<^verbatim>\<open>float\<close> accepts every ingredient quantity of the
  recipes, \<^verbatim>\<open>somar_ingredientes\<close> returns what the specification describes: one entry
  for each ingredient name that occurs, the names in lexicographic order and without
  repetition, each with the rounded float sum of the quantities of the occurrences of
  exactly that name. When some quantity is an integer beyond the range of a double, the
  function raises \<^verbatim>\<open>OverflowError\<close> and returns nothing. For the two recipes of the
  specification's example, with \<^verbatim>\<open>Leite\<close> 100 and \<^verbatim>\<open>Leite\<close> 50, the result is the
  single entry \<^verbatim>\<open>Leite\<close> with 150.0, given the facts of double arithmetic the sum uses
  (\<^verbatim>\<open>float(100)\<close>, \<^verbatim>\<open>float(50)\<close>, \<^verbatim>\<open>0.0 + 100.0 = 100.0\<close>,
  \<^verbatim>\<open>100.0 + 50.0 = 150.0\<close>, \<^verbatim>\<open>round(150.0, 2) = 150.0\<close>).
\<close>

theorem somar_ingredientes_spec:
  "(converte_ingredientes fl lista \<longrightarrow>
        somar_ingredientes fl lista = Inr (sumIngredients_spec fl lista)
      \<and> map fst (sumIngredients_spec fl lista)
          = sorted_list_of_set (NomeIngrediente ` set (ocorrencias lista))
      \<and> sorted (map fst (sumIngredients_spec fl lista))
      \<and> distinct (map fst (sumIngredients_spec fl lista)))
   \<and> (\<not> converte_ingredientes fl lista \<longrightarrow> somar_ingredientes fl lista = Inl OverflowError)
   \<and> (to_float fl 100 = Some c100 \<and> to_float fl 50 = Some c50
        \<and> fadd fl (fzero fl) c100 = c100 \<and> fadd fl c100 c50 = c150 \<and> round2 fl c150 = c150
      \<longrightarrow> somar_ingredientes fl [receita_doce 1 nomeA 100, receita_doce 2 nomeB 50]
            = Inr [(''Leite'', c150)])"
proof -
  have k: "map fst (sumIngredients_spec fl lista)
      = sorted_list_of_set (NomeIngrediente ` set (ocorrencias lista))"
    by (rule keys_sumIngredients_spec)
  have s: "sorted (map fst (sumIngredients_spec fl lista))"
    and d: "distinct (map fst (sumIngredients_spec fl lista))"
    unfolding k by simp_all
  from k s d somar_ingredientes_refines [of fl lista]
    somar_ingredientes_exemplo [of fl c100 c50 c150 nomeA nomeB]
  show ?thesis
    by auto
qed

theorem somar_ingredientes_spec_witness:
  "converte_ingredientes ieee_double [receita_doce 1 ''Pudim'' 100, receita_doce 2 ''Flan'' 50]
   \<and> somar_ingredientes ieee_double [receita_doce 1 ''Pudim'' 100, receita_doce 2 ''Flan'' 50]
       = Inr [(''Leite'', Finite 150)]
   \<and> sumIngredients_spec ieee_double [receita_doce 1 ''Pudim'' 100, receita_doce 2 ''Flan'' 50]
       = [(''Leite'', Finite 150)]
   \<and> \<not> converte_ingredientes ieee_double [receita_doce 1 ''Pudim'' quantidade_enorme]
   \<and> somar_ingredientes ieee_double [receita_doce 1 ''Pudim'' quantidade_enorme] = Inl OverflowError"
proof -
  let ?L = "[receita_doce 1 ''Pudim'' 100, receita_doce 2 ''Flan'' 50]"
  let ?G = "[receita_doce 1 ''Pudim'' quantidade_enorme]"
  note t = somar_ingredientes_spec [of ieee_double ?L "Finite 100" "Finite 50" "Finite 150" "''Pudim''" "''Flan''"]
  note g = somar_ingredientes_spec [of ieee_double ?G "Finite 100" "Finite 50" "Finite 150" "''Pudim''" "''Flan''"]
  have c100: "to_float ieee_double 100 = Some (Finite 100)"
    and c50: "to_float ieee_double 50 = Some (Finite 50)"
    and z: "fadd ieee_double (fzero ieee_double) (Finite 100) = Finite 100"
    and a: "fadd ieee_double (Finite 100) (Finite 50) = Finite 150"
    and r: "round2 ieee_double (Finite 150) = Finite 150"
    by code_simp+
  have conv: "converte_ingredientes ieee_double ?L"
    using c100 c50
    by (simp add: converte_ingredientes_def ocorrencias_def receita_doce_def get_default_def)
  have nconv: "\<not> converte_ingredientes ieee_double ?G"
    using float_quantidade_enorme
    by (simp add: converte_ingredientes_def ocorrencias_def receita_doce_def get_default_def)
  from t c100 c50 z a r have e: "somar_ingredientes ieee_double ?L = Inr [(''Leite'', Finite 150)]"
    by blast
  from t conv have "somar_ingredientes ieee_double ?L = Inr (sumIngredients_spec ieee_double ?L)"
    by blast
  with e have sp: "sumIngredients_spec ieee_double ?L = [(''Leite'', Finite 150)]"
    by simp
  from g nconv have o: "somar_ingredientes ieee_double ?G = Inl OverflowError"
    by blast
  from conv e sp nconv o show ?thesis
    by blast
qed

text \<open>
  The claim without the condition fails: on a recipe with the quantity \<^verbatim>\<open>10 ** 309\<close> the
  function returns no list, it raises \<^verbatim>\<open>OverflowError\<close>.
\<close>

theorem somar_ingredientes_spec_counterexample:
  "somar_ingredientes ieee_double [receita_doce 1 ''Pudim'' quantidade_enorme] = Inl OverflowError"
  using float_quantidade_enorme
  by (simp add: somar_ingredientes_def itens_ingredientes_def receita_doce_def get_default_def)

section \<open>Aggregation over a list of ids\<close>

lemma buscar_receita_por_id_None_iff:
  "buscar_receita_por_id RECEITAS i = None \<longleftrightarrow> i \<notin> IdReceita ` set RECEITAS"
  by (induction RECEITAS) auto

lemma buscar_receita_por_id_Some:
  "buscar_receita_por_id RECEITAS i = Some r \<Longrightarrow> r \<in> set RECEITAS \<and> IdReceita r = i"
  by (induction RECEITAS) (auto split: if_splits)

lemma resolver_ids_eq:
  "resolver_ids RECEITAS ids =
     map (\<lambda>i. the (buscar_receita_por_id RECEITAS i)) (filter (\<lambda>i. i \<in> IdReceita ` set RECEITAS) ids)"
  by (induction ids)
    (auto simp: resolver_ids_def buscar_receita_por_id_None_iff dest: buscar_receita_por_id_Some)

lemma resolver_ids_Nil_iff:
  "resolver_ids RECEITAS ids = [] \<longleftrightarrow> set ids \<inter> IdReceita ` set RECEITAS = {}"
  by (auto simp: resolver_ids_eq filter_empty_conv)

lemma corpo_ids: "map_of d ''ids'' = Some ids \<Longrightarrow> (if d = [] then None else map_of d ''ids'') = Some ids"
  by auto

text \<open>
  C3, as the code has it. For a body with an \<^verbatim>\<open>ids\<close> list, both aggregation routes
  answer 404 (NotFound) when no id of the list is the id of a catalog recipe. Ids that are
  unknown raise no error of their own. When at least one id is known, the ingredients
  route succeeds exactly when \<^verbatim>\<open>float\<close> accepts every ingredient quantity of the recipes
  found, and the macros route exactly when it accepts their calories and macro values;
  the success response counts and names only the recipes found and aggregates over them.
  Otherwise the \<^verbatim>\<open>OverflowError\<close> of the aggregation is not caught and the answer is 500.
\<close>

theorem multiplas_receitas_status:
  assumes "map_of d ''ids'' = Some ids"
  shows "(set ids \<inter> IdReceita ` set RECEITAS = {} \<longrightarrow>
            ingredientes_multiplas_receitas fl RECEITAS (Some d) = Inl NotFound
          \<and> macros_multiplas_receitas fl RECEITAS (Some d) = Inl NotFound)
       \<and> (set ids \<inter> IdReceita ` set RECEITAS \<noteq> {} \<longrightarrow>
            (converte_ingredientes fl (resolver_ids RECEITAS ids) \<longrightarrow>
               ingredientes_multiplas_receitas fl RECEITAS (Some d) =
                 Inr \<lparr>receitas_ids = ids,
                      receitas_nomes = map NomeReceita (resolver_ids RECEITAS ids),
                      total_receitas = length (filter (\<lambda>i. i \<in> IdReceita ` set RECEITAS) ids),
                      somados = sumIngredients_spec fl (resolver_ids RECEITAS ids)\<rparr>)
          \<and> (\<not> converte_ingredientes fl (resolver_ids RECEITAS ids) \<longrightarrow>
               ingredientes_multiplas_receitas fl RECEITAS (Some d) = Inl InternalServerError)
          \<and> (converte_macros fl (resolver_ids RECEITAS ids) \<longrightarrow>
               (\<exists>totais. somar_macros fl (resolver_ids RECEITAS ids) = Inr totais
                  \<and> macros_multiplas_receitas fl RECEITAS (Some d) =
                      Inr \<lparr>receitas_ids = ids,
                           receitas_nomes = map NomeReceita (resolver_ids RECEITAS ids),
                           total_receitas = length (filter (\<lambda>i. i \<in> IdReceita ` set RECEITAS) ids),
                           somados = totais\<rparr>))
          \<and> (\<not> converte_macros fl (resolver_ids RECEITAS ids) \<longrightarrow>
               macros_multiplas_receitas fl RECEITAS (Some d) = Inl InternalServerError))"
proof -
  let ?E = "resolver_ids RECEITAS ids"
  have len: "length ?E = length (filter (\<lambda>i. i \<in> IdReceita ` set RECEITAS) ids)"
    by (simp add: resolver_ids_eq)
  note body = corpo_ids [OF assms]
  have nf: "ingredientes_multiplas_receitas fl RECEITAS (Some d) = Inl NotFound
      \<and> macros_multiplas_receitas fl RECEITAS (Some d) = Inl NotFound"
    if "set ids \<inter> IdReceita ` set RECEITAS = {}"
    using that body
    by (simp add: ingredientes_multiplas_receitas_def macros_multiplas_receitas_def
        resolver_ids_Nil_iff Let_def)
  have ne: "?E \<noteq> []" if "set ids \<inter> IdReceita ` set RECEITAS \<noteq> {}"
    using that by (simp add: resolver_ids_Nil_iff)
  have i_ok: "ingredientes_multiplas_receitas fl RECEITAS (Some d) =
      Inr \<lparr>receitas_ids = ids, receitas_nomes = map NomeReceita ?E,
           total_receitas = length (filter (\<lambda>i. i \<in> IdReceita ` set RECEITAS) ids),
           somados = sumIngredients_spec fl ?E\<rparr>"
    if "?E \<noteq> []" and "converte_ingredientes fl ?E"
    using that body len
    by (simp add: ingredientes_multiplas_receitas_def Let_def somar_ingredientes_refines)
  have i_err: "ingredientes_multiplas_receitas fl RECEITAS (Some d) = Inl InternalServerError"
    if "?E \<noteq> []" and "\<not> converte_ingredientes fl ?E"
    using that body
    by (simp add: ingredientes_multiplas_receitas_def Let_def somar_ingredientes_refines)
  have m_ok: "\<exists>totais. somar_macros fl ?E = Inr totais
      \<and> macros_multiplas_receitas fl RECEITAS (Some d) =
          Inr \<lparr>receitas_ids = ids, receitas_nomes = map NomeReceita ?E,
               total_receitas = length (filter (\<lambda>i. i \<in> IdReceita ` set RECEITAS) ids),
               somados = totais\<rparr>"
    if "?E \<noteq> []" and "converte_macros fl ?E"
  proof -
    from that(2) obtain totais where t: "somar_macros fl ?E = Inr totais"
      by (blast dest: somar_macros_Inr)
    with that(1) body len show ?thesis
      by (simp add: macros_multiplas_receitas_def Let_def)
  qed
  have m_err: "macros_multiplas_receitas fl RECEITAS (Some d) = Inl InternalServerError"
    if "?E \<noteq> []" and "\<not> converte_macros fl ?E"
  proof -
    from that(2) have "somar_macros fl ?E = Inl OverflowError"
      by (simp add: somar_macros_Inl)
    with that(1) body show ?thesis
      by (simp add: macros_multiplas_receitas_def Let_def)
  qed
  from nf ne i_ok i_err m_ok m_err show ?thesis
    by blast
qed

theorem multiplas_receitas_status_witness:
  "ingredientes_multiplas_receitas ieee_double
      [receita_doce 1 ''Pudim'' 100, receita_doce 2 ''Flan'' 50] (Some [(''ids'', [7, 2, 9])])
     = Inr \<lparr>receitas_ids = [7, 2, 9], receitas_nomes = [''Flan''], total_receitas = 1,
            somados = [(''Leite'', Finite 50)]\<rparr>
   \<and> macros_multiplas_receitas ieee_double
      [receita_doce 1 ''Pudim'' 100, receita_doce 2 ''Flan'' 50] (Some [(''ids'', [7, 2, 9])])
     = Inr \<lparr>receitas_ids = [7, 2, 9], receitas_nomes = [''Flan''], total_receitas = 1,
            somados = \<lparr>CaloriasTotaisSomadas = Finite 0, MacronutrientesSomados = []\<rparr>\<rparr>
   \<and> ingredientes_multiplas_receitas ieee_double
      [receita_doce 1 ''Pudim'' 100, receita_doce 2 ''Flan'' 50] (Some [(''ids'', [7, 9])])
     = Inl NotFound
   \<and> macros_multiplas_receitas ieee_double
      [receita_doce 1 ''Pudim'' 100, receita_doce 2 ''Flan'' 50] (Some [(''ids'', [7, 9])])
     = Inl NotFound
   \<and> ingredientes_multiplas_receitas ieee_double
      [receita_doce 1 ''Pudim'' quantidade_enorme] (Some [(''ids'', [1])])
     = Inl InternalServerError"
proof -
  let ?R = "[receita_doce 1 ''Pudim'' 100, receita_doce 2 ''Flan'' 50]"
  let ?G = "[receita_doce 1 ''Pudim'' quantidade_enorme]"
  have d1: "map_of [(''ids'', [7, 2, 9 :: int])] ''ids'' = Some [7, 2, 9]"
    and d2: "map_of [(''ids'', [7, 9 :: int])] ''ids'' = Some [7, 9]"
    and d3: "map_of [(''ids'', [1 :: int])] ''ids'' = Some [1]"
    by simp_all
  have some: "set [7, 2, 9] \<inter> IdReceita ` set ?R \<noteq> {}"
    by (simp add: receita_doce_def)
  have none: "set [7, 9] \<inter> IdReceita ` set ?R = {}"
    by (simp add: receita_doce_def)
  have someG: "set [1] \<inter> IdReceita ` set ?G \<noteq> {}"
    by (simp add: receita_doce_def)
  have r: "resolver_ids ?R [7, 2, 9] = [receita_doce 2 ''Flan'' 50]"
    by code_simp
  have rG: "resolver_ids ?G [1] = ?G"
    by (simp add: resolver_ids_def receita_doce_def)
  have n: "length (filter (\<lambda>i. i \<in> IdReceita ` set ?R) [7, 2, 9]) = 1"
    by (simp add: receita_doce_def)
  have nm: "map NomeReceita [receita_doce 2 ''Flan'' 50] = [''Flan'']"
    by (simp add: receita_doce_def)
  have c50: "to_float ieee_double 50 = Some (Finite 50)"
    and c0: "to_float ieee_double 0 = Some (Finite 0)"
    by code_simp+
  have ci: "converte_ingredientes ieee_double [receita_doce 2 ''Flan'' 50]"
    using c50
    by (simp add: converte_ingredientes_def ocorrencias_def receita_doce_def get_default_def)
  have cm: "converte_macros ieee_double [receita_doce 2 ''Flan'' 50]"
    using c0
    by (simp add: converte_macros_def receita_doce_def get_default_def)
  have nci: "\<not> converte_ingredientes ieee_double ?G"
    using float_quantidade_enorme
    by (simp add: converte_ingredientes_def ocorrencias_def receita_doce_def get_default_def)
  have si: "sumIngredients_spec ieee_double [receita_doce 2 ''Flan'' 50] = [(''Leite'', Finite 50)]"
    by code_simp
  have sm: "somar_macros ieee_double [receita_doce 2 ''Flan'' 50]
      = Inr \<lparr>CaloriasTotaisSomadas = Finite 0, MacronutrientesSomados = []\<rparr>"
    by code_simp
  note a = multiplas_receitas_status [OF d1, of ?R ieee_double, unfolded r n nm si]
  note b = multiplas_receitas_status [OF d2, of ?R ieee_double]
  note c = multiplas_receitas_status [OF d3, of ?G ieee_double, unfolded rG]
  from a some ci have i: "ingredientes_multiplas_receitas ieee_double ?R (Some [(''ids'', [7, 2, 9])])
     = Inr \<lparr>receitas_ids = [7, 2, 9], receitas_nomes = [''Flan''], total_receitas = 1,
            somados = [(''Leite'', Finite 50)]\<rparr>"
    by blast
  from a some cm obtain totais where
    "somar_macros ieee_double [receita_doce 2 ''Flan'' 50] = Inr totais"
    and "macros_multiplas_receitas ieee_double ?R (Some [(''ids'', [7, 2, 9])])
     = Inr \<lparr>receitas_ids = [7, 2, 9], receitas_nomes = [''Flan''], total_receitas = 1,
            somados = totais\<rparr>"
    by blast
  then have m: "macros_multiplas_receitas ieee_double ?R (Some [(''ids'', [7, 2, 9])])
     = Inr \<lparr>receitas_ids = [7, 2, 9], receitas_nomes = [''Flan''], total_receitas = 1,
            somados = \<lparr>CaloriasTotaisSomadas = Finite 0, MacronutrientesSomados = []\<rparr>\<rparr>"
    unfolding sm by simp
  from c someG nci have g: "ingredientes_multiplas_receitas ieee_double ?G (Some [(''ids'', [1])])
     = Inl InternalServerError"
    by blast
  from i m b none g show ?thesis
    by blast
qed

text \<open>
  The claim that a success response is returned whenever an id resolves fails: with a
  catalog whose recipe 1 has the ingredient quantity \<^verbatim>\<open>10 ** 309\<close>, the id 1 resolves and
  \<^verbatim>\<open>POST /receitas/ingredientes\<close> with \<^verbatim>\<open>{"ids": [1]}\<close> is answered 500.
\<close>

theorem multiplas_receitas_status_counterexample:
  "buscar_receita_por_id [receita_doce 1 ''Pudim'' quantidade_enorme] 1
     = Some (receita_doce 1 ''Pudim'' quantidade_enorme)
   \<and> ingredientes_multiplas_receitas ieee_double
        [receita_doce 1 ''Pudim'' quantidade_enorme] (Some [(''ids'', [1])])
     = Inl InternalServerError"
proof -
  have "somar_ingredientes ieee_double [receita_doce 1 ''Pudim'' quantidade_enorme] = Inl OverflowError"
    using float_quantidade_enorme
    by (simp add: somar_ingredientes_def itens_ingredientes_def receita_doce_def get_default_def)
  then show ?thesis
    by (simp add: ingredientes_multiplas_receitas_def resolver_ids_def receita_doce_def)
qed

section \<open>Merging aggregates\<close>














end
